theory Spec2Isabelle
  imports Main "HOL-Library.Sublist" "HOL-Library.Multiset"
begin

section \<open>The cricket dashboard (\<open>dashboard.py\<close>)\<close>

text \<open>
  The program reads CSV files below \<open>cricket/analysis/<folder>\<close> into pandas data frames,
  narrows them to the matches of a team and renders a fixed sequence of aggregates. The
  theory follows it function by function: the file system and the data frames are values,
  every Python exception is a value of \<open>py_error\<close>, and what the page shows is a list of
  elements together with the exception that ended the render, if any.
\<close>

subsection \<open>Data frames\<close>

text \<open>
  A cell of a data frame read from a CSV file: \<open>Null\<close> is pandas' NaN (an empty field),
  \<open>Num\<close> a number, \<open>Str\<close> a text. A row gives a cell to column names; a column the row
  has nothing for reads as NaN. A table carries its column labels and its rows in file
  order.
\<close>

datatype cell = Null | Num int | Str string

type_synonym row = "(string \<times> cell) list"

record table =
  columns :: "string list"
  rows :: "row list"

text \<open>
  The Python exceptions of the program. The last two constructors are no exceptions of
  Python: they mark the two places where the render leaves what is followed here of
  pandas, and a result that carries one of them says nothing about the program.
\<close>

datatype py_error =
    KeyError "string list"      \<comment> \<open>the labels that are no column of the frame\<close>
  | AttributeError              \<comment> \<open>\<open>.str\<close> on a column that holds no text\<close>
  | UnboundLocalError string    \<comment> \<open>a local variable read before any assignment\<close>
  | IsADirectoryError
  | NotADirectoryError
  | FileNotFoundError
  | ReadError                   \<comment> \<open>\<open>pd.read_csv\<close> cannot parse the file\<close>
  | RegexOutsideFragment        \<comment> \<open>mark: a pattern with a metacharacter other than the dot\<close>
  | SumNotFollowed              \<comment> \<open>mark: a sum that is no exact integer, or a sum of text\<close>

text \<open>Sequencing of steps that may raise: the first exception is the result.\<close>

definition bnd :: "'e + 'a \<Rightarrow> ('a \<Rightarrow> 'e + 'b) \<Rightarrow> 'e + 'b" where
  "bnd m f = (case m of Inl e \<Rightarrow> Inl e | Inr x \<Rightarrow> f x)"

definition cell_of :: "row \<Rightarrow> string \<Rightarrow> cell" where
  "cell_of r c = (case map_of r c of Some v \<Rightarrow> v | None \<Rightarrow> Null)"

text \<open>\<open>pd.DataFrame()\<close>: no columns, no rows.\<close>

definition DataFrame :: table where
  "DataFrame = \<lparr>columns = [], rows = []\<rparr>"

text \<open>\<open>df.empty\<close>: one of the two axes has length 0.\<close>

definition df_empty :: "table \<Rightarrow> bool" where
  "df_empty df = (columns df = [] \<or> rows df = [])"

text \<open>\<open>df[c]\<close>: the cells of column \<open>c\<close>, a KeyError when the frame has no such column.\<close>

definition column :: "table \<Rightarrow> string \<Rightarrow> py_error + cell list" where
  "column df c =
     (if c \<in> set (columns df) then Inr (map (\<lambda>r. cell_of r c) (rows df))
      else Inl (KeyError [c]))"

text \<open>\<open>df[mask]\<close> with a Boolean mask computed row by row.\<close>

definition select_rows :: "table \<Rightarrow> (row \<Rightarrow> bool) \<Rightarrow> table" where
  "select_rows df keep = df\<lparr>rows := filter keep (rows df)\<rparr>"

subsection \<open>The file system\<close>

text \<open>
  A path names a directory (with its entries in the order \<open>os.listdir\<close> gives them), a
  file that \<open>pd.read_csv\<close> parses into a table, or a file that it cannot parse. Parsing
  itself belongs to pandas and is not modelled: a CSV file is given by its table.
\<close>

datatype fs_entry = Dir "string list" | CsvFile table | BadFile

type_synonym filesystem = "string \<Rightarrow> fs_entry option"

definition path_exists :: "filesystem \<Rightarrow> string \<Rightarrow> bool" where
  "path_exists fs p = (fs p \<noteq> None)"

definition isdir :: "filesystem \<Rightarrow> string \<Rightarrow> bool" where
  "isdir fs p = (case fs p of Some (Dir es) \<Rightarrow> True | _ \<Rightarrow> False)"

definition listdir :: "filesystem \<Rightarrow> string \<Rightarrow> py_error + string list" where
  "listdir fs p =
     (case fs p of
        None \<Rightarrow> Inl FileNotFoundError
      | Some (Dir es) \<Rightarrow> Inr es
      | Some _ \<Rightarrow> Inl NotADirectoryError)"

definition read_csv :: "fs_entry \<Rightarrow> py_error + table" where
  "read_csv e =
     (case e of
        CsvFile t \<Rightarrow> Inr t
      | Dir es \<Rightarrow> Inl IsADirectoryError
      | BadFile \<Rightarrow> Inl ReadError)"

text \<open>\<open>os.path.join\<close> on POSIX: a component that starts with a slash restarts the path.\<close>

definition join2 :: "string \<Rightarrow> string \<Rightarrow> string" where
  "join2 path b =
     (if b \<noteq> [] \<and> hd b = CHR ''/'' then b
      else if path = [] \<or> last path = CHR ''/'' then path @ b
      else path @ ''/'' @ b)"

definition path_join :: "string \<Rightarrow> string list \<Rightarrow> string" where
  "path_join a ps = foldl join2 a ps"

definition BASE_PATH :: string where
  "BASE_PATH = ''cricket/analysis''"

subsection \<open>Helpers\<close>

definition load_csv :: "filesystem \<Rightarrow> string \<Rightarrow> py_error + table" where
  "load_csv fs path =
     (case fs path of
        Some e \<Rightarrow> read_csv e
      | None \<Rightarrow> Inr DataFrame)"

definition get_teams :: "filesystem \<Rightarrow> string \<Rightarrow> py_error + string list" where
  "get_teams fs folder =
     (let team_dir = path_join BASE_PATH [folder, ''team''] in
      if path_exists fs team_dir
      then bnd (listdir fs team_dir)
             (\<lambda>ds. Inr (filter (\<lambda>d. isdir fs (path_join team_dir [d])) ds))
      else Inr [])"

text \<open>The parameter \<open>team\<close> (default \<open>None\<close>) is accepted and never read.\<close>

definition get_players :: "filesystem \<Rightarrow> string \<Rightarrow> string option \<Rightarrow> py_error + string list" where
  "get_players fs folder team =
     (let player_dir = path_join BASE_PATH [folder, ''player''] in
      if path_exists fs player_dir
      then bnd (listdir fs player_dir)
             (\<lambda>ds. Inr (filter (\<lambda>d. isdir fs (path_join player_dir [d])) ds))
      else Inr [])"

subsection \<open>The team filter (lines 43 to 49 and the per-player line)\<close>

text \<open>
  \<open>Series.str.contains(pat, na=False)\<close> keeps pandas' defaults \<open>case=True\<close> and
  \<open>regex=True\<close>: the team name is compiled as a regular expression and each text cell is
  tested with \<open>re.search\<close>. The fragment of Python's \<open>re\<close> followed here is the
  patterns built from ordinary characters and the dot, which stands for any character
  but the newline. A pattern with one of the other metacharacters is outside the
  fragment and gives \<open>RegexOutsideFragment\<close>.
\<close>

text \<open>The metacharacters of \<open>re\<close> apart from the dot; \<open>0x5C\<close> is the backslash.\<close>

definition regex_special :: "char list" where
  "regex_special = CHR 0x5C # ''^$*+?{}[]|()''"

definition in_fragment :: "string \<Rightarrow> bool" where
  "in_fragment pat = (\<forall>c \<in> set pat. c \<notin> set regex_special)"

fun match_here :: "string \<Rightarrow> string \<Rightarrow> bool" where
  "match_here [] s = True"
| "match_here (p # ps) [] = False"
| "match_here (p # ps) (c # cs) =
     ((if p = CHR ''.'' then c \<noteq> CHR 0x0A else c = p) \<and> match_here ps cs)"

fun re_search :: "string \<Rightarrow> string \<Rightarrow> bool" where
  "re_search pat [] = match_here pat []"
| "re_search pat (c # cs) = (match_here pat (c # cs) \<or> re_search pat cs)"

text \<open>
  The \<open>.str\<close> accessor exists on a column of dtype object only: a column that \<open>read_csv\<close>
  found text in (or that has no cell at all). Cells that are no text give the \<open>na\<close>
  value, here \<open>False\<close>.
\<close>

definition object_dtype :: "cell list \<Rightarrow> bool" where
  "object_dtype col = (col = [] \<or> (\<exists>v \<in> set col. case v of Str s \<Rightarrow> True | _ \<Rightarrow> False))"

definition contains_cell :: "string \<Rightarrow> cell \<Rightarrow> bool" where
  "contains_cell pat v = (case v of Str s \<Rightarrow> re_search pat s | _ \<Rightarrow> False)"

definition str_contains :: "cell list \<Rightarrow> string \<Rightarrow> py_error + (cell \<Rightarrow> bool)" where
  "str_contains col pat =
     (if \<not> object_dtype col then Inl AttributeError
      else if \<not> in_fragment pat then Inl RegexOutsideFragment
      else Inr (contains_cell pat))"

text \<open>\<open>Series.unique()\<close>: the distinct values in order of first appearance, NaN included.\<close>

definition unique :: "cell list \<Rightarrow> cell list" where
  "unique col = rev (remdups (rev col))"

text \<open>
  \<open>df[df["match_id"].isin(ids)]\<close>: the column is read first (KeyError), then the rows
  whose \<open>match_id\<close> is among \<open>ids\<close> are kept; NaN is a member when \<open>ids\<close> holds NaN.
\<close>

definition isin_match_ids :: "table \<Rightarrow> cell list \<Rightarrow> py_error + table" where
  "isin_match_ids df ids =
     bnd (column df ''match_id'')
       (\<lambda>_. Inr (select_rows df (\<lambda>r. cell_of r ''match_id'' \<in> set ids)))"

text \<open>Python's truth value of the parameter \<open>team\<close>: \<open>None\<close> and the empty string are false.\<close>

definition truthy :: "string option \<Rightarrow> bool" where
  "truthy team = (case team of None \<Rightarrow> False | Some s \<Rightarrow> s \<noteq> [])"

text \<open>
  Lines 44 to 49. The result is the local variable \<open>valid_match_ids\<close> (\<open>None\<close> while it
  is unassigned) and the three tables as they stand after the block.
\<close>

definition filter_by_team ::
  "string option \<Rightarrow> table \<Rightarrow> table \<Rightarrow> table
     \<Rightarrow> py_error + (cell list option \<times> table \<times> table \<times> table)" where
  "filter_by_team team matches_df ball_df info_df =
     (case team of
        Some t \<Rightarrow>
          if t \<noteq> [] \<and> \<not> df_empty matches_df then
            bnd (column matches_df ''teams'') (\<lambda>teams.
            bnd (str_contains teams t) (\<lambda>hit.
              let team_matches = select_rows matches_df (\<lambda>r. hit (cell_of r ''teams'')) in
              bnd (column team_matches ''match_id'') (\<lambda>ids.
                let valid_match_ids = unique ids in
                bnd (isin_match_ids ball_df valid_match_ids) (\<lambda>ball_df'.
                bnd (isin_match_ids info_df valid_match_ids) (\<lambda>info_df'.
                bnd (isin_match_ids matches_df valid_match_ids) (\<lambda>matches_df'.
                  Inr (Some valid_match_ids, ball_df', info_df', matches_df')))))))
          else Inr (None, ball_df, info_df, matches_df)
      | None \<Rightarrow> Inr (None, ball_df, info_df, matches_df))"

text \<open>
  Lines 94, 107 and 120: \<open>if team: df = df[df["match_id"].isin(valid_match_ids)]\<close>. The
  guard is \<open>team\<close> alone; \<open>df["match_id"]\<close> is evaluated before the name
  \<open>valid_match_ids\<close> is read.
\<close>

definition player_filter :: "string option \<Rightarrow> cell list option \<Rightarrow> table \<Rightarrow> py_error + table" where
  "player_filter team valid_match_ids df =
     (if truthy team then
        bnd (column df ''match_id'') (\<lambda>_.
          case valid_match_ids of
            None \<Rightarrow> Inl (UnboundLocalError ''valid_match_ids'')
          | Some ids \<Rightarrow> isin_match_ids df ids)
      else Inr df)"

subsection \<open>Aggregates over the ball-by-ball table (lines 55 to 84)\<close>

text \<open>
  \<open>Series.value_counts()\<close> counts each value that is not NaN. The result is kept as the
  multiset of those values: the frame pandas builds has one row for each distinct element
  with its multiplicity, and the order of these rows is not followed here.
\<close>

definition value_counts :: "cell list \<Rightarrow> cell multiset" where
  "value_counts col = mset (filter (\<lambda>v. v \<noteq> Null) col)"

text \<open>Line 57: \<open>value_counts().reindex([0,1,2,3,4,6], fill_value=0)\<close>.\<close>

definition runs_distribution :: "table \<Rightarrow> py_error + (int \<times> nat) list" where
  "runs_distribution ball_df =
     bnd (column ball_df ''runs_batter'')
       (\<lambda>col. Inr (map (\<lambda>k. (k, count (value_counts col) (Num k))) [0, 1, 2, 3, 4, 6]))"

text \<open>
  \<open>Series.sum()\<close>: NaN is skipped and the empty sum is 0. What pandas computes depends
  on the dtype the column got when the file was read (the dtype survives the row filter,
  so it cannot be read off the cells that are left): an int64 column is added with
  wrap-around, a float64 column with rounding, and on a column of dtype object, which
  holds text, the texts are added. As long as the column holds no text and the absolute
  values add up to at most \<open>2^53\<close>, int64 does not wrap and float64 does not round,
  whatever the order of the additions, and the result is the sum of the numbers. Outside
  this range the sum is not followed: \<open>SumNotFollowed\<close>.
\<close>

definition is_text :: "cell \<Rightarrow> bool" where
  "is_text v = (case v of Str s \<Rightarrow> True | _ \<Rightarrow> False)"

definition num_of :: "cell \<Rightarrow> int" where
  "num_of v = (case v of Num n \<Rightarrow> n | _ \<Rightarrow> 0)"

definition exact_range :: "cell list \<Rightarrow> bool" where
  "exact_range col = (sum_list (map (\<lambda>v. \<bar>num_of v\<bar>) col) \<le> 2 ^ 53)"

definition col_sum :: "cell list \<Rightarrow> py_error + int" where
  "col_sum col =
     (if list_ex is_text col then Inl SumNotFollowed
      else if exact_range col then Inr (sum_list (map num_of col))
      else Inl SumNotFollowed)"

text \<open>\<open>Series.notna().sum()\<close>: the number of cells that are not NaN.\<close>

definition notna_sum :: "cell list \<Rightarrow> nat" where
  "notna_sum col = length (filter (\<lambda>v. v \<noteq> Null) col)"

text \<open>
  Lines 78 to 83, the dict \<open>totals\<close>: its four items in order. The values are evaluated
  in the order they are written.
\<close>

definition totals :: "table \<Rightarrow> py_error + (string \<times> int) list" where
  "totals ball_df =
     bnd (column ball_df ''runs_total'') (\<lambda>runs_total.
     bnd (col_sum runs_total) (\<lambda>total_runs.
     bnd (column ball_df ''wicket_type'') (\<lambda>wicket_type.
     bnd (column ball_df ''runs_extras'') (\<lambda>runs_extras.
     bnd (col_sum runs_extras) (\<lambda>total_extras.
       Inr [(''Total Runs'', total_runs),
            (''Total Wickets'', int (notna_sum wicket_type)),
            (''Total Extras'', total_extras),
            (''Total Balls'', int (length (rows ball_df)))])))))"

subsection \<open>Leaderboards (lines 86 to 126)\<close>

text \<open>
  The body of \<open>for pname in os.listdir(player_dir)\<close>: an entry that raises ends the loop
  with its exception, an entry whose CSV file does not exist appends nothing.
\<close>

fun collect :: "('a \<Rightarrow> py_error + 'b option) \<Rightarrow> 'a list \<Rightarrow> py_error + 'b list" where
  "collect f [] = Inr []"
| "collect f (x # xs) =
     (case f x of
        Inl e \<Rightarrow> Inl e
      | Inr None \<Rightarrow> collect f xs
      | Inr (Some y) \<Rightarrow> (case collect f xs of Inl e \<Rightarrow> Inl e | Inr ys \<Rightarrow> Inr (y # ys)))"

definition player_loop ::
  "filesystem \<Rightarrow> string \<Rightarrow> (string \<Rightarrow> py_error + 'b option) \<Rightarrow> py_error + 'b list" where
  "player_loop fs player_dir entry =
     (if path_exists fs player_dir then bnd (listdir fs player_dir) (collect entry)
      else Inr [])"

definition batter_entry ::
  "filesystem \<Rightarrow> string \<Rightarrow> string option \<Rightarrow> cell list option \<Rightarrow> string
     \<Rightarrow> py_error + (string \<times> int) option" where
  "batter_entry fs player_dir team valid_match_ids pname =
     (let batter_csv = path_join player_dir [pname, ''batter.csv''] in
      if path_exists fs batter_csv then
        bnd (load_csv fs batter_csv) (\<lambda>df.
        bnd (player_filter team valid_match_ids df) (\<lambda>df.
        bnd (column df ''runs_batter'') (\<lambda>runs_batter.
        bnd (col_sum runs_batter) (\<lambda>runs. Inr (Some (pname, runs))))))
      else Inr None)"

definition bowler_entry ::
  "filesystem \<Rightarrow> string \<Rightarrow> string option \<Rightarrow> cell list option \<Rightarrow> string
     \<Rightarrow> py_error + (string \<times> nat) option" where
  "bowler_entry fs player_dir team valid_match_ids pname =
     (let bowler_csv = path_join player_dir [pname, ''bowler.csv''] in
      if path_exists fs bowler_csv then
        bnd (load_csv fs bowler_csv) (\<lambda>df.
        bnd (player_filter team valid_match_ids df) (\<lambda>df.
        bnd (column df ''wicket_type'') (\<lambda>wicket_type.
          Inr (Some (pname, notna_sum wicket_type)))))
      else Inr None)"

text \<open>\<open>(df["wicket_type"] == label).sum()\<close>: the number of cells equal to the text.\<close>

definition count_eq :: "string \<Rightarrow> cell list \<Rightarrow> nat" where
  "count_eq label col = length (filter (\<lambda>v. v = Str label) col)"

definition fielder_entry ::
  "filesystem \<Rightarrow> string \<Rightarrow> string option \<Rightarrow> cell list option \<Rightarrow> string
     \<Rightarrow> py_error + (string \<times> nat \<times> nat \<times> nat) option" where
  "fielder_entry fs player_dir team valid_match_ids pname =
     (let fielder_csv = path_join player_dir [pname, ''fielder.csv''] in
      if path_exists fs fielder_csv then
        bnd (load_csv fs fielder_csv) (\<lambda>df.
        bnd (player_filter team valid_match_ids df) (\<lambda>df.
        bnd (column df ''wicket_type'') (\<lambda>wicket_type.
          let catches = count_eq ''caught'' wicket_type;
              runouts = count_eq ''run out'' wicket_type
          in Inr (Some (pname, catches + runouts, catches, runouts)))))
      else Inr None)"

text \<open>
  \<open>sort_values(key, ascending=False)\<close>: the rows in non-increasing order of the key.
  pandas sorts with numpy's quicksort, which is not stable: which of several rows with
  the same key comes first is not fixed, and with it which of them are among the first
  ten. The function below keeps such rows in their original order; it stands for one of
  the orders pandas may give, and nothing that is proved of the boards depends on the
  order of rows with equal keys. \<open>head(10)\<close> is \<open>take 10\<close>.
\<close>

definition sort_values_desc :: "('a \<Rightarrow> 'k::linorder) \<Rightarrow> 'a list \<Rightarrow> 'a list" where
  "sort_values_desc key xs = rev (sort_key key (rev xs))"

definition top_run_scorers ::
  "filesystem \<Rightarrow> string \<Rightarrow> string option \<Rightarrow> cell list option
     \<Rightarrow> py_error + (string \<times> int) list" where
  "top_run_scorers fs player_dir team valid_match_ids =
     bnd (player_loop fs player_dir (batter_entry fs player_dir team valid_match_ids))
       (\<lambda>run_data. Inr (take 10 (sort_values_desc snd run_data)))"

definition top_wicket_takers ::
  "filesystem \<Rightarrow> string \<Rightarrow> string option \<Rightarrow> cell list option
     \<Rightarrow> py_error + (string \<times> nat) list" where
  "top_wicket_takers fs player_dir team valid_match_ids =
     bnd (player_loop fs player_dir (bowler_entry fs player_dir team valid_match_ids))
       (\<lambda>wk_data. Inr (take 10 (sort_values_desc snd wk_data)))"

definition top_fielders ::
  "filesystem \<Rightarrow> string \<Rightarrow> string option \<Rightarrow> cell list option
     \<Rightarrow> py_error + (string \<times> nat \<times> nat \<times> nat) list" where
  "top_fielders fs player_dir team valid_match_ids =
     bnd (player_loop fs player_dir (fielder_entry fs player_dir team valid_match_ids))
       (\<lambda>fld_data. Inr (take 10 (sort_values_desc (\<lambda>e. fst (snd e)) fld_data)))"

subsection \<open>Match tables (lines 128 to 164)\<close>

text \<open>
  \<open>groupby(["toss_winner","toss_decision"]).size()\<close>: rows with NaN in one of the two
  keys belong to no group; kept as the multiset of the key pairs.
\<close>

definition toss_decision_counts :: "table \<Rightarrow> (cell \<times> cell) multiset" where
  "toss_decision_counts info_df =
     mset (filter (\<lambda>k. fst k \<noteq> Null \<and> snd k \<noteq> Null)
            (map (\<lambda>r. (cell_of r ''toss_winner'', cell_of r ''toss_decision'')) (rows info_df)))"

text \<open>
  \<open>df[[c1, ..., cn]]\<close>: the frame of these columns, a KeyError that names the missing
  labels when one of them is no column.
\<close>

definition select_columns :: "table \<Rightarrow> string list \<Rightarrow> py_error + table" where
  "select_columns df cs =
     (let missing = filter (\<lambda>c. c \<notin> set (columns df)) cs in
      if missing = []
      then Inr \<lparr>columns = cs, rows = map (\<lambda>r. map (\<lambda>c. (c, cell_of r c)) cs) (rows df)\<rparr>
      else Inl (KeyError missing))"

text \<open>\<open>dropna(how="all")\<close>: a row goes when every one of its cells is NaN.\<close>

definition dropna_all :: "table \<Rightarrow> table" where
  "dropna_all df = select_rows df (\<lambda>r. list_ex (\<lambda>c. cell_of r c \<noteq> Null) (columns df))"

definition head :: "nat \<Rightarrow> table \<Rightarrow> table" where
  "head n df = df\<lparr>rows := take n (rows df)\<rparr>"

definition margin_columns :: "string list" where
  "margin_columns = [''outcome.winner'', ''outcome.by.wickets'', ''outcome.by.runs'', ''outcome.result'']"

text \<open>Lines 163 and 164: \<open>margin_df\<close> and the preview that is shown.\<close>

definition win_margins :: "table \<Rightarrow> py_error + table" where
  "win_margins matches_df =
     bnd (select_columns matches_df margin_columns) (\<lambda>cut. Inr (head 20 (dropna_all cut)))"

subsection \<open>The page\<close>

text \<open>
  What \<open>show_dashboard\<close> hands to Streamlit, in order. A chart and the table below it
  show the same frame and are one element. The titles are written without the pictograph
  that starts them in the source.
\<close>

datatype element =
    Header string
  | Subheader string
  | Warning string
  | RunsCounts "(int \<times> nat) list"
  | WicketCounts "cell multiset"
  | ExtrasCounts "cell multiset"
  | Totals "(string \<times> int) list"
  | RunScorers "(string \<times> int) list"
  | WicketTakers "(string \<times> nat) list"
  | Fielders "(string \<times> nat \<times> nat \<times> nat) list"
  | TossWins "cell multiset"
  | TossDecisions "(cell \<times> cell) multiset"
  | PlayerOfMatch "cell multiset"
  | MatchWinners "cell multiset"
  | WinMargins table

type_synonym step = "py_error + element list"

text \<open>The steps run in order; the first exception ends the render and keeps what was shown.\<close>

fun run_steps :: "step list \<Rightarrow> element list \<times> py_error option" where
  "run_steps [] = ([], None)"
| "run_steps (Inl e # steps) = ([], Some e)"
| "run_steps (Inr shown # steps) = (shown @ fst (run_steps steps), snd (run_steps steps))"

definition shown_as :: "('a \<Rightarrow> element) \<Rightarrow> py_error + 'a \<Rightarrow> step" where
  "shown_as mk r = (case r of Inl e \<Rightarrow> Inl e | Inr x \<Rightarrow> Inr [mk x])"

text \<open>Lines 55 to 84.\<close>

definition ball_sections :: "table \<Rightarrow> step list" where
  "ball_sections ball_df =
     [Inr [Subheader ''Runs Distribution (0,1,2,3,4,6)''],
      shown_as RunsCounts (runs_distribution ball_df),
      Inr [Subheader ''Wicket Types''],
      shown_as WicketCounts (bnd (column ball_df ''wicket_type'') (\<lambda>c. Inr (value_counts c))),
      Inr [Subheader ''Extras Types''],
      shown_as ExtrasCounts (bnd (column ball_df ''extras_type'') (\<lambda>c. Inr (value_counts c))),
      Inr [Subheader ''Totals''],
      shown_as Totals (totals ball_df)]"

text \<open>Lines 86 to 126.\<close>

definition leaderboard_sections ::
  "filesystem \<Rightarrow> string \<Rightarrow> string option \<Rightarrow> cell list option \<Rightarrow> step list" where
  "leaderboard_sections fs player_dir team valid_match_ids =
     [Inr [Subheader ''Top 10 Run Scorers''],
      shown_as RunScorers (top_run_scorers fs player_dir team valid_match_ids),
      Inr [Subheader ''Top 10 Wicket Takers''],
      shown_as WicketTakers (top_wicket_takers fs player_dir team valid_match_ids),
      Inr [Subheader ''Top 10 Fielders (Catches + Runouts)''],
      shown_as Fielders (top_fielders fs player_dir team valid_match_ids)]"

text \<open>Lines 128 to 143.\<close>

definition toss_sections :: "table \<Rightarrow> step list" where
  "toss_sections info_df =
     (if \<not> df_empty info_df then
        [Inr [Subheader ''Toss Wins by Team''],
         shown_as TossWins (bnd (column info_df ''toss_winner'') (\<lambda>c. Inr (value_counts c))),
         Inr [Subheader ''Toss Decision (Bat/Field) by Team'']]
        @ (if ''toss_winner'' \<in> set (columns info_df) \<and> ''toss_decision'' \<in> set (columns info_df)
           then [Inr [TossDecisions (toss_decision_counts info_df)]]
           else [])
      else [])"

text \<open>Lines 145 to 151.\<close>

definition player_of_match_section :: "table \<Rightarrow> step list" where
  "player_of_match_section matches_df =
     (if \<not> df_empty matches_df \<and> ''player_of_match'' \<in> set (columns matches_df) then
        [Inr [Subheader ''Player of the Match Awards''],
         shown_as PlayerOfMatch
           (bnd (column matches_df ''player_of_match'') (\<lambda>c. Inr (value_counts c)))]
      else [])"

text \<open>Lines 153 to 164.\<close>

definition winner_sections :: "table \<Rightarrow> step list" where
  "winner_sections matches_df =
     (if \<not> df_empty matches_df \<and> ''outcome.winner'' \<in> set (columns matches_df) then
        [Inr [Subheader ''Match Winners''],
         shown_as MatchWinners
           (bnd (column matches_df ''outcome.winner'') (\<lambda>c. Inr (value_counts c)))]
        @ (if ''outcome.by.wickets'' \<in> set (columns matches_df)
              \<or> ''outcome.by.runs'' \<in> set (columns matches_df)
           then [Inr [Subheader ''Win Margins''], shown_as WinMargins (win_margins matches_df)]
           else [])
      else [])"

text \<open>
  Lines 43 to 164 on the three loaded tables: the team filter, the early return on an
  empty ball-by-ball table, then the sections.
\<close>

definition dashboard_body ::
  "filesystem \<Rightarrow> string \<Rightarrow> string option \<Rightarrow> table \<Rightarrow> table \<Rightarrow> table
     \<Rightarrow> element list \<times> py_error option" where
  "dashboard_body fs player_dir team matches_df ball_df info_df =
     (case filter_by_team team matches_df ball_df info_df of
        Inl e \<Rightarrow> ([], Some e)
      | Inr (valid_match_ids, ball_df', info_df', matches_df') \<Rightarrow>
          if df_empty ball_df'
          then ([Warning ''No ball-by-ball data available for this selection.''], None)
          else run_steps
                 (ball_sections ball_df'
                  @ leaderboard_sections fs player_dir team valid_match_ids
                  @ toss_sections info_df'
                  @ player_of_match_section matches_df'
                  @ winner_sections matches_df'))"

text \<open>Lines 35 to 41, then the body.\<close>

definition show_dashboard ::
  "filesystem \<Rightarrow> string \<Rightarrow> string \<Rightarrow> string option \<Rightarrow> element list \<times> py_error option" where
  "show_dashboard fs folder title team =
     (let header = Header (title @ (case team of
                                      Some t \<Rightarrow> if t \<noteq> [] then '' - '' @ t else []
                                    | None \<Rightarrow> []))
      in case load_csv fs (path_join BASE_PATH [folder, ''ballbyball.csv'']) of
           Inl e \<Rightarrow> ([header], Some e)
         | Inr ball_df \<Rightarrow>
       (case load_csv fs (path_join BASE_PATH [folder, ''info_summary.csv'']) of
           Inl e \<Rightarrow> ([header], Some e)
         | Inr info_df \<Rightarrow>
       (case load_csv fs (path_join BASE_PATH [folder, folder @ ''_matches.csv'']) of
           Inl e \<Rightarrow> ([header], Some e)
         | Inr matches_df \<Rightarrow>
            (let player_dir = path_join BASE_PATH [folder, ''player''];
                 body = dashboard_body fs player_dir team matches_df ball_df info_df
             in (header # fst body, snd body)))))"

subsection \<open>Notions the properties are stated with\<close>

text \<open>A team name that \<open>re\<close> reads literally: no dot and no other metacharacter.\<close>

definition literal_name :: "string \<Rightarrow> bool" where
  "literal_name team = (\<forall>c \<in> set team. c \<noteq> CHR ''.'' \<and> c \<notin> set regex_special)"

text \<open>The row's \<open>teams\<close> field is a text that contains the team name as a substring.\<close>

definition names_team :: "string \<Rightarrow> row \<Rightarrow> bool" where
  "names_team team r = (case cell_of r ''teams'' of Str s \<Rightarrow> sublist team s | _ \<Rightarrow> False)"

text \<open>The row's \<open>match_id\<close> is one of the given identifiers.\<close>

definition in_ids :: "cell list \<Rightarrow> row \<Rightarrow> bool" where
  "in_ids ids r = (cell_of r ''match_id'' \<in> set ids)"




subsection \<open>Example tables\<close>

text \<open>The matches and ball events of the scenarios, and an info table to go with them.\<close>

definition ex_matches :: table where
  "ex_matches = \<lparr>columns = [''match_id'', ''teams''],
     rows = [[(''match_id'', Num 1), (''teams'', Str ''India vs Australia'')],
             [(''match_id'', Num 2), (''teams'', Str ''England vs Australia'')]]\<rparr>"

definition ex_ball :: table where
  "ex_ball = \<lparr>columns = [''match_id'', ''runs_batter''],
     rows = [[(''match_id'', Num 1), (''runs_batter'', Num 4)],
             [(''match_id'', Num 1), (''runs_batter'', Num 0)],
             [(''match_id'', Num 2), (''runs_batter'', Num 6)]]\<rparr>"

definition ex_info :: table where
  "ex_info = \<lparr>columns = [''match_id'', ''toss_winner''],
     rows = [[(''match_id'', Num 1), (''toss_winner'', Str ''India'')],
             [(''match_id'', Num 2), (''toss_winner'', Str ''England'')]]\<rparr>"

text \<open>A matches table for a team whose name has dots.\<close>

definition ex_dotted :: table where
  "ex_dotted = \<lparr>columns = [''match_id'', ''teams''],
     rows = [[(''match_id'', Num 1), (''teams'', Str ''U.A.E vs Oman'')],
             [(''match_id'', Num 2), (''teams'', Str ''UXAXE vs Oman'')]]\<rparr>"

text \<open>Ball events with every column the ball-by-ball sections read.\<close>

definition ex_ball_full :: table where
  "ex_ball_full =
     \<lparr>columns = [''match_id'', ''runs_batter'', ''runs_total'', ''runs_extras'', ''wicket_type'',
                 ''extras_type''],
      rows = [[(''match_id'', Num 1), (''runs_batter'', Num 4), (''runs_total'', Num 4),
               (''runs_extras'', Num 0), (''wicket_type'', Null), (''extras_type'', Null)],
              [(''match_id'', Num 1), (''runs_batter'', Num 0), (''runs_total'', Num 1),
               (''runs_extras'', Num 1), (''wicket_type'', Null), (''extras_type'', Str ''wides'')],
              [(''match_id'', Num 2), (''runs_batter'', Num 0), (''runs_total'', Num 0),
               (''runs_extras'', Num 0), (''wicket_type'', Str ''caught''), (''extras_type'', Null)]]\<rparr>"

text \<open>The same ball events in a file that has no \<open>runs_total\<close> column.\<close>

definition ex_ball_no_total :: table where
  "ex_ball_no_total =
     \<lparr>columns = [''match_id'', ''runs_batter'', ''runs_extras'', ''wicket_type'', ''extras_type''],
      rows = [[(''match_id'', Num 1), (''runs_batter'', Num 4),
               (''runs_extras'', Num 0), (''wicket_type'', Null), (''extras_type'', Null)],
              [(''match_id'', Num 1), (''runs_batter'', Num 0),
               (''runs_extras'', Num 1), (''wicket_type'', Null), (''extras_type'', Str ''wides'')],
              [(''match_id'', Num 2), (''runs_batter'', Num 0),
               (''runs_extras'', Num 0), (''wicket_type'', Str ''caught''), (''extras_type'', Null)]]\<rparr>"

text \<open>
  A player directory \<open>p\<close> with two players: A has a batter, a bowler and a fielder file,
  B a batter and a fielder file.
\<close>

definition ex_players :: filesystem where
  "ex_players =
     [''p'' \<mapsto> Dir [''A'', ''B''],
      ''p/A/batter.csv'' \<mapsto> CsvFile \<lparr>columns = [''match_id'', ''runs_batter''],
         rows = [[(''match_id'', Num 1), (''runs_batter'', Num 4)],
                 [(''match_id'', Num 2), (''runs_batter'', Num 6)]]\<rparr>,
      ''p/B/batter.csv'' \<mapsto> CsvFile \<lparr>columns = [''match_id'', ''runs_batter''],
         rows = [[(''match_id'', Num 1), (''runs_batter'', Num 6)],
                 [(''match_id'', Num 1), (''runs_batter'', Num 1)]]\<rparr>,
      ''p/A/bowler.csv'' \<mapsto> CsvFile \<lparr>columns = [''match_id'', ''wicket_type''],
         rows = [[(''match_id'', Num 1), (''wicket_type'', Str ''bowled'')],
                 [(''match_id'', Num 1), (''wicket_type'', Null)]]\<rparr>,
      ''p/A/fielder.csv'' \<mapsto> CsvFile \<lparr>columns = [''match_id'', ''wicket_type''],
         rows = [[(''match_id'', Num 1), (''wicket_type'', Str ''caught'')],
                 [(''match_id'', Num 2), (''wicket_type'', Str ''caught'')],
                 [(''match_id'', Num 1), (''wicket_type'', Str ''run out'')]]\<rparr>,
      ''p/B/fielder.csv'' \<mapsto> CsvFile \<lparr>columns = [''match_id'', ''wicket_type''],
         rows = [[(''match_id'', Num 1), (''wicket_type'', Str ''caught'')],
                 [(''match_id'', Num 1), (''wicket_type'', Str ''stumped'')]]\<rparr>]"

text \<open>A matches table of a category whose matches were all won by runs.\<close>

definition ex_won_by_runs :: table where
  "ex_won_by_runs =
     \<lparr>columns = [''match_id'', ''outcome.winner'', ''outcome.by.runs'', ''outcome.result''],
      rows = [[(''match_id'', Num 1), (''outcome.winner'', Str ''India''),
               (''outcome.by.runs'', Num 12), (''outcome.result'', Null)]]\<rparr>"



section \<open>Properties\<close>

lemma bnd_simps [simp]:
  "bnd (Inl e) f = Inl e"
  "bnd (Inr x) f = f x"
  by (simp_all add: bnd_def)

lemma bnd_eq_Inr:
  "bnd m f = Inr y \<longleftrightarrow> (\<exists>x. m = Inr x \<and> f x = Inr y)"
  by (cases m) simp_all

subsection \<open>Loading\<close>

text \<open>
  C8: for every path, \<open>load_csv\<close> returns the table the file parses to when the path
  exists, and a table with zero rows and no columns when it does not; a missing file
  never raises.
\<close>

theorem load_csv_missing_or_parsed:
  "(fs path = None \<longrightarrow>
      load_csv fs path = Inr DataFrame \<and> rows DataFrame = [] \<and> columns DataFrame = [])
   \<and> (\<forall>t. fs path = Some (CsvFile t) \<longrightarrow> load_csv fs path = Inr t)
   \<and> (\<forall>e. fs path = Some e \<longrightarrow> load_csv fs path = read_csv e)"
  by (simp add: load_csv_def read_csv_def DataFrame_def)

theorem load_csv_missing_or_parsed_witness:
  "(Map.empty :: filesystem) ''a.csv'' = None
   \<and> load_csv Map.empty ''a.csv'' = Inr DataFrame
   \<and> [''b.csv'' \<mapsto> CsvFile \<lparr>columns = [''match_id''], rows = [[(''match_id'', Num 1)]]\<rparr>] ''b.csv''
       = Some (CsvFile \<lparr>columns = [''match_id''], rows = [[(''match_id'', Num 1)]]\<rparr>)
   \<and> load_csv [''b.csv'' \<mapsto> CsvFile \<lparr>columns = [''match_id''], rows = [[(''match_id'', Num 1)]]\<rparr>] ''b.csv''
       = Inr \<lparr>columns = [''match_id''], rows = [[(''match_id'', Num 1)]]\<rparr>"
  using load_csv_missing_or_parsed [of Map.empty "''a.csv''"]
    load_csv_missing_or_parsed
      [of "[''b.csv'' \<mapsto> CsvFile \<lparr>columns = [''match_id''], rows = [[(''match_id'', Num 1)]]\<rparr>]" "''b.csv''"]
  by simp

subsection \<open>Listing players\<close>

text \<open>
  C10: for every category folder, \<open>get_players\<close> returns the same list whatever its team
  argument is, unset included: the result is read off the category's player directory
  alone.
\<close>

theorem get_players_ignores_team:
  "get_players fs folder team = get_players fs folder team'
   \<and> get_players fs folder team = get_players fs folder None"
  by (simp add: get_players_def)

subsection \<open>The team filter\<close>

lemma match_here_plain: "CHR ''.'' \<notin> set p \<Longrightarrow> match_here p s = prefix p s"
  by (induction p s rule: match_here.induct) auto

lemma re_search_plain: "CHR ''.'' \<notin> set p \<Longrightarrow> re_search p s = sublist p s"
  by (induction s) (auto simp: match_here_plain sublist_Cons_right)

lemma literal_no_dot: "literal_name team \<Longrightarrow> CHR ''.'' \<notin> set team"
  unfolding literal_name_def by blast

lemma contains_cell_literal:
  "literal_name team \<Longrightarrow> contains_cell team (cell_of r ''teams'') = names_team team r"
  by (cases "cell_of r ''teams''")
     (simp_all add: contains_cell_def names_team_def re_search_plain literal_no_dot)

lemma literal_in_fragment: "literal_name team \<Longrightarrow> in_fragment team"
  by (simp add: literal_name_def in_fragment_def)

lemma unique_set [simp]: "set (unique col) = set col"
  by (simp add: unique_def)

lemma unique_distinct [simp]: "distinct (unique col)"
  by (simp add: unique_def)

lemma isin_match_ids_ok:
  "''match_id'' \<in> set (columns df) \<Longrightarrow> isin_match_ids df ids = Inr (select_rows df (in_ids ids))"
  unfolding in_ids_def[abs_def] by (simp add: isin_match_ids_def column_def)

lemma columns_select_rows [simp]: "columns (select_rows df keep) = columns df"
  by (simp add: select_rows_def)

lemma rows_select_rows [simp]: "rows (select_rows df keep) = filter keep (rows df)"
  by (simp add: select_rows_def)

lemma filter_by_team_steps:
  assumes "team \<noteq> []" and "literal_name team"
    and "\<not> df_empty matches_df"
    and "''teams'' \<in> set (columns matches_df)"
    and "object_dtype (map (\<lambda>r. cell_of r ''teams'') (rows matches_df))"
    and "''match_id'' \<in> set (columns matches_df)"
    and "''match_id'' \<in> set (columns ball_df)"
    and "''match_id'' \<in> set (columns info_df)"
    and "ids = unique (map (\<lambda>r. cell_of r ''match_id'') (filter (names_team team) (rows matches_df)))"
  shows "filter_by_team (Some team) matches_df ball_df info_df =
       Inr (Some ids, select_rows ball_df (in_ids ids), select_rows info_df (in_ids ids),
            select_rows matches_df (in_ids ids))"
proof -
  have hit: "str_contains (map (\<lambda>r. cell_of r ''teams'') (rows matches_df)) team
               = Inr (contains_cell team)"
    using assms(2,5) by (simp add: str_contains_def literal_in_fragment)
  have sel: "select_rows matches_df (\<lambda>r. contains_cell team (cell_of r ''teams''))
               = select_rows matches_df (names_team team)"
    using assms(2) by (simp add: contains_cell_literal)
  have col: "column matches_df ''teams'' = Inr (map (\<lambda>r. cell_of r ''teams'') (rows matches_df))"
    using assms(4) by (simp add: column_def)
  have col2: "column (select_rows matches_df (names_team team)) ''match_id''
               = Inr (map (\<lambda>r. cell_of r ''match_id'') (filter (names_team team) (rows matches_df)))"
    using assms(6) by (simp add: column_def)
  show ?thesis
    unfolding filter_by_team_def assms(9) using assms(1,3)
    by (simp add: col hit sel Let_def col2 isin_match_ids_ok[OF assms(6)]
          isin_match_ids_ok[OF assms(7)] isin_match_ids_ok[OF assms(8)] del: unique_set)
qed

text \<open>
  C1, as the code has it: for a non-empty matches table and a team name that is set and
  that \<open>re\<close> reads literally, the filter selects exactly the rows of the matches table whose
  \<open>teams\<close> field contains the name as a case-sensitive substring, collects their
  distinct \<open>match_id\<close> values as \<open>valid_match_ids\<close>, and restricts the ball events, the
  info table, the matches table and every per-player table to the rows whose \<open>match_id\<close>
  is among them. The tables are taken with the columns the block reads: \<open>teams\<close> (a text
  column) and \<open>match_id\<close>.
\<close>

theorem filter_by_team_literal_name:
  assumes "team \<noteq> []" and "literal_name team"
    and "\<not> df_empty matches_df"
    and "''teams'' \<in> set (columns matches_df)"
    and "object_dtype (map (\<lambda>r. cell_of r ''teams'') (rows matches_df))"
    and "''match_id'' \<in> set (columns matches_df)"
    and "''match_id'' \<in> set (columns ball_df)"
    and "''match_id'' \<in> set (columns info_df)"
  shows "\<exists>valid_match_ids.
     filter_by_team (Some team) matches_df ball_df info_df =
       Inr (Some valid_match_ids,
            select_rows ball_df (in_ids valid_match_ids),
            select_rows info_df (in_ids valid_match_ids),
            select_rows matches_df (in_ids valid_match_ids))
     \<and> distinct valid_match_ids
     \<and> set valid_match_ids =
         (\<lambda>r. cell_of r ''match_id'') ` {r \<in> set (rows matches_df). names_team team r}
     \<and> (\<forall>df. ''match_id'' \<in> set (columns df) \<longrightarrow>
           player_filter (Some team) (Some valid_match_ids) df =
             Inr (select_rows df (in_ids valid_match_ids)))"
proof -
  define ids where
    "ids = unique (map (\<lambda>r. cell_of r ''match_id'') (filter (names_team team) (rows matches_df)))"
  have "filter_by_team (Some team) matches_df ball_df info_df =
       Inr (Some ids, select_rows ball_df (in_ids ids), select_rows info_df (in_ids ids),
            select_rows matches_df (in_ids ids))"
    using assms ids_def by (rule filter_by_team_steps)
  moreover have "distinct ids"
    by (simp add: ids_def)
  moreover have "set ids = (\<lambda>r. cell_of r ''match_id'') ` {r \<in> set (rows matches_df). names_team team r}"
    by (simp add: ids_def)
  moreover have "\<forall>df. ''match_id'' \<in> set (columns df) \<longrightarrow>
           player_filter (Some team) (Some ids) df = Inr (select_rows df (in_ids ids))"
    using assms(1) by (simp add: player_filter_def truthy_def column_def isin_match_ids_ok)
  ultimately show ?thesis
    by (intro exI[of _ ids] conjI)
qed

text \<open>The scenario of the matches table with team India: the hypotheses hold there.\<close>

theorem filter_by_team_literal_name_witness:
  "''India'' \<noteq> [] \<and> literal_name ''India'' \<and> \<not> df_empty ex_matches
   \<and> ''teams'' \<in> set (columns ex_matches)
   \<and> object_dtype (map (\<lambda>r. cell_of r ''teams'') (rows ex_matches))
   \<and> ''match_id'' \<in> set (columns ex_matches)
   \<and> ''match_id'' \<in> set (columns ex_ball)
   \<and> ''match_id'' \<in> set (columns ex_info)
   \<and> (\<exists>valid_match_ids.
     filter_by_team (Some ''India'') ex_matches ex_ball ex_info =
       Inr (Some valid_match_ids,
            select_rows ex_ball (in_ids valid_match_ids),
            select_rows ex_info (in_ids valid_match_ids),
            select_rows ex_matches (in_ids valid_match_ids))
     \<and> distinct valid_match_ids
     \<and> set valid_match_ids =
         (\<lambda>r. cell_of r ''match_id'') ` {r \<in> set (rows ex_matches). names_team ''India'' r}
     \<and> (\<forall>df. ''match_id'' \<in> set (columns df) \<longrightarrow>
           player_filter (Some ''India'') (Some valid_match_ids) df =
             Inr (select_rows df (in_ids valid_match_ids))))"
proof -
  have h1: "''India'' \<noteq> []" by simp
  have h2: "literal_name ''India''"
    by (simp add: literal_name_def regex_special_def)
  have h3: "\<not> df_empty ex_matches"
    by (simp add: df_empty_def ex_matches_def)
  have h4: "''teams'' \<in> set (columns ex_matches)"
    by (simp add: ex_matches_def)
  have h5: "object_dtype (map (\<lambda>r. cell_of r ''teams'') (rows ex_matches))"
    by (simp add: object_dtype_def ex_matches_def cell_of_def)
  have h6: "''match_id'' \<in> set (columns ex_matches)"
    by (simp add: ex_matches_def)
  have h7: "''match_id'' \<in> set (columns ex_ball)"
    by (simp add: ex_ball_def)
  have h8: "''match_id'' \<in> set (columns ex_info)"
    by (simp add: ex_info_def)
  show ?thesis
    using h1 h2 h3 h4 h5 h6 h7 h8 filter_by_team_literal_name [OF h1 h2 h3 h4 h5 h6 h7 h8]
    by blast
qed

text \<open>What the filter returns there: \<open>valid_match_ids = [1]\<close>.\<close>

lemma filter_by_team_India:
  "filter_by_team (Some ''India'') ex_matches ex_ball ex_info =
     Inr (Some [Num 1],
          \<lparr>columns = [''match_id'', ''runs_batter''],
           rows = [[(''match_id'', Num 1), (''runs_batter'', Num 4)],
                   [(''match_id'', Num 1), (''runs_batter'', Num 0)]]\<rparr>,
          \<lparr>columns = [''match_id'', ''toss_winner''],
           rows = [[(''match_id'', Num 1), (''toss_winner'', Str ''India'')]]\<rparr>,
          \<lparr>columns = [''match_id'', ''teams''],
           rows = [[(''match_id'', Num 1), (''teams'', Str ''India vs Australia'')]]\<rparr>)"
  by (simp add: filter_by_team_def ex_matches_def ex_ball_def ex_info_def df_empty_def column_def
        select_rows_def str_contains_def object_dtype_def in_fragment_def regex_special_def
        contains_cell_def cell_of_def isin_match_ids_def unique_def)

text \<open>
  Stated for every set team name, the property fails: the name is a regular expression
  to \<open>str.contains\<close>, so with the team \<open>U.A.E\<close> the row \<open>UXAXE vs Oman\<close> is selected
  although the name is no substring of it, and match 2 becomes a valid match.
\<close>

theorem filter_by_team_regex_counterexample:
  "filter_by_team (Some ''U.A.E'') ex_dotted ex_ball ex_info =
     Inr (Some [Num 1, Num 2], ex_ball, ex_info, ex_dotted)
   \<and> rows ex_dotted ! 1 = [(''match_id'', Num 2), (''teams'', Str ''UXAXE vs Oman'')]
   \<and> \<not> sublist ''U.A.E'' ''UXAXE vs Oman''"
  by (simp add: filter_by_team_def ex_dotted_def ex_ball_def ex_info_def df_empty_def column_def
        select_rows_def str_contains_def object_dtype_def in_fragment_def regex_special_def
        contains_cell_def cell_of_def isin_match_ids_def unique_def sublist_code)

text \<open>
  C2, as the code has it: when the matches table is empty the block of the team filter is
  skipped, whatever the team: it raises nothing, \<open>valid_match_ids\<close> stays unassigned and
  the ball events, the info table and the matches table pass through unchanged.
\<close>

theorem filter_by_team_empty_matches:
  assumes "df_empty matches_df"
  shows "filter_by_team team matches_df ball_df info_df = Inr (None, ball_df, info_df, matches_df)"
  using assms by (cases team) (simp_all add: filter_by_team_def)

text \<open>A missing matches file with a team set.\<close>

theorem filter_by_team_empty_matches_witness:
  "df_empty DataFrame
   \<and> filter_by_team (Some ''India'') DataFrame ex_ball ex_info = Inr (None, ex_ball, ex_info, DataFrame)"
proof -
  have h: "df_empty DataFrame" by (simp add: df_empty_def DataFrame_def)
  show ?thesis using h filter_by_team_empty_matches [OF h] by simp
qed

text \<open>
  With an empty matches table and the team set, \<open>valid_match_ids\<close> is not the empty set
  and the dependent tables do not become empty: the ball events and the info table keep
  their rows, and the filter of a per-player table raises on the unassigned name.
\<close>

theorem empty_matches_counterexample:
  "df_empty DataFrame
   \<and> filter_by_team (Some ''India'') DataFrame ex_ball ex_info = Inr (None, ex_ball, ex_info, DataFrame)
   \<and> \<not> df_empty ex_ball \<and> \<not> df_empty ex_info
   \<and> player_filter (Some ''India'') None ex_ball = Inl (UnboundLocalError ''valid_match_ids'')"
  by (simp add: filter_by_team_def df_empty_def DataFrame_def ex_ball_def ex_info_def
        player_filter_def truthy_def column_def)


subsection \<open>Runs distribution and totals\<close>

lemma count_value_counts:
  "count (value_counts col) (Num k) = length (filter (\<lambda>v. v = Num k) col)"
  by (induction col) (simp_all add: value_counts_def)

lemma six_counts_le_length:
  "length (filter (\<lambda>v. v = Num 0) col) + length (filter (\<lambda>v. v = Num 1) col)
   + length (filter (\<lambda>v. v = Num 2) col) + length (filter (\<lambda>v. v = Num 3) col)
   + length (filter (\<lambda>v. v = Num 4) col) + length (filter (\<lambda>v. v = Num 6) col)
   \<le> length col"
  by (induction col) auto

lemma runs_distribution_value:
  assumes "''runs_batter'' \<in> set (columns ball_df)"
  shows "runs_distribution ball_df =
     Inr (map (\<lambda>k. (k, length (filter (\<lambda>r. cell_of r ''runs_batter'' = Num k) (rows ball_df))))
            [0, 1, 2, 3, 4, 6])"
  using assms
  by (simp add: runs_distribution_def column_def count_value_counts filter_map comp_def)

text \<open>
  C3: for every ball-events table (with its \<open>runs_batter\<close> column) the runs distribution
  has exactly six entries, for 0, 1, 2, 3, 4 and 6 in this order; each count is the number
  of rows whose \<open>runs_batter\<close> is that value, so other values are ignored and a value that
  does not occur has count 0; the six counts sum to at most the number of rows.
\<close>

theorem runs_distribution_six_entries:
  assumes "''runs_batter'' \<in> set (columns ball_df)"
  shows "\<exists>dist. runs_distribution ball_df = Inr dist
     \<and> map fst dist = [0, 1, 2, 3, 4, 6]
     \<and> (\<forall>k c. (k, c) \<in> set dist \<longrightarrow>
           c = length (filter (\<lambda>r. cell_of r ''runs_batter'' = Num k) (rows ball_df)))
     \<and> sum_list (map snd dist) \<le> length (rows ball_df)"
proof -
  let ?col = "map (\<lambda>r. cell_of r ''runs_batter'') (rows ball_df)"
  let ?n = "\<lambda>k. length (filter (\<lambda>r. cell_of r ''runs_batter'' = Num k) (rows ball_df))"
  let ?dist = "map (\<lambda>k. (k, ?n k)) [0, 1, 2, 3, 4, 6]"
  have n: "?n k = length (filter (\<lambda>v. v = Num k) ?col)" for k
    by (simp add: filter_map comp_def)
  have "runs_distribution ball_df = Inr ?dist"
    using assms by (rule runs_distribution_value)
  moreover have "map fst ?dist = [0, 1, 2, 3, 4, 6]"
    by simp
  moreover have "\<forall>k c. (k, c) \<in> set ?dist \<longrightarrow> c = ?n k"
    by auto
  moreover have "sum_list (map snd ?dist) \<le> length (rows ball_df)"
    using six_counts_le_length [of ?col] by (simp add: n)
  ultimately show ?thesis
    by (intro exI [of _ ?dist] conjI)
qed

text \<open>The ball events of the scenario: \<open>{0:1, 1:0, 2:0, 3:0, 4:1, 6:1}\<close>.\<close>

theorem runs_distribution_six_entries_witness:
  "''runs_batter'' \<in> set (columns ex_ball)
   \<and> runs_distribution ex_ball = Inr [(0, 1), (1, 0), (2, 0), (3, 0), (4, 1), (6, 1)]
   \<and> (\<exists>dist. runs_distribution ex_ball = Inr dist
     \<and> map fst dist = [0, 1, 2, 3, 4, 6]
     \<and> (\<forall>k c. (k, c) \<in> set dist \<longrightarrow>
           c = length (filter (\<lambda>r. cell_of r ''runs_batter'' = Num k) (rows ex_ball)))
     \<and> sum_list (map snd dist) \<le> length (rows ex_ball))"
proof -
  have h: "''runs_batter'' \<in> set (columns ex_ball)"
    by (simp add: ex_ball_def)
  have v: "runs_distribution ex_ball = Inr [(0, 1), (1, 0), (2, 0), (3, 0), (4, 1), (6, 1)]"
    by (simp add: runs_distribution_value [OF h]) (simp add: ex_ball_def cell_of_def)
  show ?thesis
    using h v runs_distribution_six_entries [OF h] by blast
qed

lemma column_absent:
  "c \<notin> set (columns df) \<Longrightarrow> column df c = Inl (KeyError [c])"
  by (simp add: column_def)

lemma col_sum_exact:
  assumes "\<not> list_ex is_text col" and "exact_range col"
  shows "col_sum col = Inr (sum_list (map num_of col))"
  using assms by (simp add: col_sum_def)

text \<open>A sum past the largest int64, where numpy wraps around, is not followed.\<close>

lemma col_sum_past_int64:
  "col_sum [Num 9223372036854775807, Num 1] = Inl SumNotFollowed"
  by (simp add: col_sum_def is_text_def exact_range_def num_of_def)

text \<open>
  C4, as the code has it: over a ball-events table that has the columns \<open>runs_total\<close>,
  \<open>wicket_type\<close> and \<open>runs_extras\<close>, the two summed ones numeric and small enough for
  the sums to be exact (absolute values adding up to at most \<open>2^53\<close>: no int64
  wrap-around, no float64 rounding), the totals are the sum of \<open>runs_total\<close>, the number
  of cells of \<open>wicket_type\<close> that are not NaN, the sum of \<open>runs_extras\<close> and the number
  of rows; when the column \<open>runs_total\<close> is absent the aggregate raises a KeyError for it
  and yields no total.
\<close>

theorem totals_need_their_columns:
  "(''runs_total'' \<notin> set (columns ball_df) \<longrightarrow> totals ball_df = Inl (KeyError [''runs_total'']))
   \<and> (\<forall>runs_total wicket_type runs_extras.
         column ball_df ''runs_total'' = Inr runs_total
         \<and> column ball_df ''wicket_type'' = Inr wicket_type
         \<and> column ball_df ''runs_extras'' = Inr runs_extras
         \<and> \<not> list_ex is_text runs_total \<and> \<not> list_ex is_text runs_extras
         \<and> exact_range runs_total \<and> exact_range runs_extras
         \<longrightarrow> totals ball_df =
               Inr [(''Total Runs'', sum_list (map num_of runs_total)),
                    (''Total Wickets'', int (length (filter (\<lambda>v. v \<noteq> Null) wicket_type))),
                    (''Total Extras'', sum_list (map num_of runs_extras)),
                    (''Total Balls'', int (length (rows ball_df)))])"
  by (simp add: totals_def column_absent col_sum_exact notna_sum_def)

text \<open>
  The ball events with all columns, and the ball events of a file that has every column
  the sections before the totals read but no \<open>runs_total\<close>.
\<close>

theorem totals_need_their_columns_witness:
  "column ex_ball_full ''runs_total'' = Inr [Num 4, Num 1, Num 0]
   \<and> column ex_ball_full ''wicket_type'' = Inr [Null, Null, Str ''caught'']
   \<and> column ex_ball_full ''runs_extras'' = Inr [Num 0, Num 1, Num 0]
   \<and> \<not> list_ex is_text [Num 4, Num 1, Num 0] \<and> \<not> list_ex is_text [Num 0, Num 1, Num 0]
   \<and> exact_range [Num 4, Num 1, Num 0] \<and> exact_range [Num 0, Num 1, Num 0]
   \<and> totals ex_ball_full =
       Inr [(''Total Runs'', 5), (''Total Wickets'', 1), (''Total Extras'', 1), (''Total Balls'', 3)]
   \<and> ''runs_total'' \<notin> set (columns ex_ball_no_total)
   \<and> totals ex_ball_no_total = Inl (KeyError [''runs_total''])"
proof -
  have c1: "column ex_ball_full ''runs_total'' = Inr [Num 4, Num 1, Num 0]"
    by (simp add: column_def ex_ball_full_def cell_of_def)
  have c2: "column ex_ball_full ''wicket_type'' = Inr [Null, Null, Str ''caught'']"
    by (simp add: column_def ex_ball_full_def cell_of_def)
  have c3: "column ex_ball_full ''runs_extras'' = Inr [Num 0, Num 1, Num 0]"
    by (simp add: column_def ex_ball_full_def cell_of_def)
  have t: "\<not> list_ex is_text [Num 4, Num 1, Num 0]" "\<not> list_ex is_text [Num 0, Num 1, Num 0]"
    by (simp_all add: is_text_def)
  have e: "exact_range [Num 4, Num 1, Num 0]" "exact_range [Num 0, Num 1, Num 0]"
    by (simp_all add: exact_range_def num_of_def)
  have n: "length (rows ex_ball_full) = 3"
    by (simp add: ex_ball_full_def)
  have a: "''runs_total'' \<notin> set (columns ex_ball_no_total)"
    by (simp add: ex_ball_no_total_def)
  show ?thesis
    using totals_need_their_columns [of ex_ball_full]
      totals_need_their_columns [of ex_ball_no_total] c1 c2 c3 t e n a
    by (simp add: num_of_def)
qed

lemma ex_ball_no_total_columns:
  "column ex_ball_no_total ''runs_batter'' = Inr [Num 4, Num 0, Num 0]"
  "column ex_ball_no_total ''wicket_type'' = Inr [Null, Null, Str ''caught'']"
  "column ex_ball_no_total ''extras_type'' = Inr [Null, Str ''wides'', Null]"
  "column ex_ball_no_total ''runs_total'' = Inl (KeyError [''runs_total''])"
  by (simp_all add: column_def ex_ball_no_total_def cell_of_def)

lemma ex_ball_no_total_sections:
  "ball_sections ex_ball_no_total =
     [Inr [Subheader ''Runs Distribution (0,1,2,3,4,6)''],
      Inr [RunsCounts [(0, 2), (1, 0), (2, 0), (3, 0), (4, 1), (6, 0)]],
      Inr [Subheader ''Wicket Types''],
      Inr [WicketCounts {#Str ''caught''#}],
      Inr [Subheader ''Extras Types''],
      Inr [ExtrasCounts {#Str ''wides''#}],
      Inr [Subheader ''Totals''],
      Inl (KeyError [''runs_total''])]"
  by (simp add: ball_sections_def runs_distribution_def totals_def ex_ball_no_total_columns
        shown_as_def value_counts_def)

text \<open>
  A ball-by-ball file without the \<open>runs_total\<close> column, with every column that the
  sections before the totals read: the render shows the three distributions and the
  Totals subheader, then line 79 raises; no total of 0 is shown.
\<close>

theorem totals_default_counterexample:
  "''runs_total'' \<notin> set (columns ex_ball_no_total)
   \<and> totals ex_ball_no_total = Inl (KeyError [''runs_total''])
   \<and> dashboard_body Map.empty ''p'' None DataFrame ex_ball_no_total DataFrame =
       ([Subheader ''Runs Distribution (0,1,2,3,4,6)'',
         RunsCounts [(0, 2), (1, 0), (2, 0), (3, 0), (4, 1), (6, 0)],
         Subheader ''Wicket Types'',
         WicketCounts {#Str ''caught''#},
         Subheader ''Extras Types'',
         ExtrasCounts {#Str ''wides''#},
         Subheader ''Totals''],
        Some (KeyError [''runs_total'']))"
proof -
  have a: "''runs_total'' \<notin> set (columns ex_ball_no_total)"
    by (simp add: ex_ball_no_total_def)
  have t: "totals ex_ball_no_total = Inl (KeyError [''runs_total''])"
    by (simp add: totals_def ex_ball_no_total_columns)
  have b: "\<not> df_empty ex_ball_no_total"
    by (simp add: df_empty_def ex_ball_no_total_def)
  have d: "dashboard_body Map.empty ''p'' None DataFrame ex_ball_no_total DataFrame =
       ([Subheader ''Runs Distribution (0,1,2,3,4,6)'',
         RunsCounts [(0, 2), (1, 0), (2, 0), (3, 0), (4, 1), (6, 0)],
         Subheader ''Wicket Types'',
         WicketCounts {#Str ''caught''#},
         Subheader ''Extras Types'',
         ExtrasCounts {#Str ''wides''#},
         Subheader ''Totals''],
        Some (KeyError [''runs_total'']))"
    using b by (simp add: dashboard_body_def filter_by_team_def ex_ball_no_total_sections)
  show ?thesis
    using a t d by simp
qed


subsection \<open>Leaderboards\<close>

lemma collect_member:
  "collect f xs = Inr ys \<Longrightarrow> y \<in> set ys \<Longrightarrow> \<exists>x \<in> set xs. f x = Inr (Some y)"
proof (induction xs arbitrary: ys)
  case Nil
  then show ?case by simp
next
  case (Cons x xs)
  show ?case
  proof (cases "f x")
    case (Inl e)
    with Cons.prems show ?thesis by simp
  next
    case (Inr r)
    show ?thesis
    proof (cases r)
      case None
      with Inr Cons show ?thesis by simp
    next
      case (Some z)
      with Inr Cons.prems obtain zs where zs: "collect f xs = Inr zs" "ys = z # zs"
        by (auto split: sum.splits)
      show ?thesis
      proof (cases "y = z")
        case True
        with Inr Some show ?thesis by simp
      next
        case False
        with zs Cons.prems(2) have "y \<in> set zs" by simp
        with Cons.IH zs(1) show ?thesis by auto
      qed
    qed
  qed
qed

lemma player_loop_member:
  assumes "player_loop fs player_dir entry = Inr ys" and "y \<in> set ys"
  shows "\<exists>pname. entry pname = Inr (Some y)"
proof (cases "path_exists fs player_dir")
  case True
  with assms(1) obtain names where "collect entry names = Inr ys"
    by (auto simp: player_loop_def bnd_eq_Inr)
  with assms(2) show ?thesis
    by (blast dest: collect_member)
next
  case False
  with assms show ?thesis
    by (simp add: player_loop_def)
qed

lemma sort_values_desc_sorted:
  "sorted_wrt (\<lambda>a b. key a \<ge> key b) (sort_values_desc key xs)"
proof -
  have "sorted (map key (sort_key key (rev xs)))"
    by (rule sorted_sort_key)
  then have "sorted_wrt (\<lambda>a b. key a \<le> key b) (sort_key key (rev xs))"
    by (simp add: sorted_wrt_map)
  then show ?thesis
    by (simp add: sort_values_desc_def sorted_wrt_rev)
qed

lemma set_sort_values_desc [simp]: "set (sort_values_desc key xs) = set xs"
  by (simp add: sort_values_desc_def)

lemma top_ten_sorted:
  "sorted_wrt (\<ge>) (map key (take 10 (sort_values_desc key xs)))
   \<and> length (take 10 (sort_values_desc key xs)) \<le> 10"
  using sort_values_desc_sorted [of key xs]
  by (simp add: sorted_wrt_map sorted_wrt_take)

lemma top_ten_subset: "y \<in> set (take 10 (sort_values_desc key xs)) \<Longrightarrow> y \<in> set xs"
  using set_take_subset [of 10 "sort_values_desc key xs"] by auto

text \<open>
  C5: whenever a leaderboard is produced, it is in non-increasing order of its ranking
  metric (runs, wickets, total) and has at most ten rows.
\<close>

theorem leaderboards_sorted_top_ten:
  "(\<forall>run_df. top_run_scorers fs player_dir team valid_match_ids = Inr run_df \<longrightarrow>
      sorted_wrt (\<ge>) (map snd run_df) \<and> length run_df \<le> 10)
   \<and> (\<forall>wk_df. top_wicket_takers fs player_dir team valid_match_ids = Inr wk_df \<longrightarrow>
      sorted_wrt (\<ge>) (map snd wk_df) \<and> length wk_df \<le> 10)
   \<and> (\<forall>fld_df. top_fielders fs player_dir team valid_match_ids = Inr fld_df \<longrightarrow>
      sorted_wrt (\<ge>) (map (\<lambda>e. fst (snd e)) fld_df) \<and> length fld_df \<le> 10)"
proof (intro conjI allI impI)
  fix run_df
  assume "top_run_scorers fs player_dir team valid_match_ids = Inr run_df"
  then obtain run_data where r: "run_df = take 10 (sort_values_desc snd run_data)"
    by (auto simp: top_run_scorers_def bnd_eq_Inr)
  show "sorted_wrt (\<ge>) (map snd run_df)" "length run_df \<le> 10"
    using top_ten_sorted [of snd run_data] by (simp_all add: r)
next
  fix wk_df
  assume "top_wicket_takers fs player_dir team valid_match_ids = Inr wk_df"
  then obtain wk_data where r: "wk_df = take 10 (sort_values_desc snd wk_data)"
    by (auto simp: top_wicket_takers_def bnd_eq_Inr)
  show "sorted_wrt (\<ge>) (map snd wk_df)" "length wk_df \<le> 10"
    using top_ten_sorted [of snd wk_data] by (simp_all add: r)
next
  fix fld_df
  assume "top_fielders fs player_dir team valid_match_ids = Inr fld_df"
  then obtain fld_data
    where r: "fld_df = take 10 (sort_values_desc (\<lambda>e. fst (snd e)) fld_data)"
    by (auto simp: top_fielders_def bnd_eq_Inr)
  show "sorted_wrt (\<ge>) (map (\<lambda>e. fst (snd e)) fld_df)" "length fld_df \<le> 10"
    using top_ten_sorted [of "\<lambda>e. fst (snd e)" fld_data] by (simp_all add: r)
qed

lemma ex_paths:
  "path_join ''p'' [''A'', ''batter.csv''] = ''p/A/batter.csv''"
  "path_join ''p'' [''B'', ''batter.csv''] = ''p/B/batter.csv''"
  "path_join ''p'' [''A'', ''bowler.csv''] = ''p/A/bowler.csv''"
  "path_join ''p'' [''B'', ''bowler.csv''] = ''p/B/bowler.csv''"
  "path_join ''p'' [''A'', ''fielder.csv''] = ''p/A/fielder.csv''"
  "path_join ''p'' [''B'', ''fielder.csv''] = ''p/B/fielder.csv''"
  by (simp_all add: path_join_def join2_def)

lemma ex_run_scorers:
  "top_run_scorers ex_players ''p'' None None = Inr [(''A'', 10), (''B'', 7)]"
  "top_run_scorers ex_players ''p'' (Some ''India'') (Some [Num 1]) = Inr [(''B'', 7), (''A'', 4)]"
  by (simp_all add: top_run_scorers_def player_loop_def path_exists_def listdir_def
        batter_entry_def ex_paths load_csv_def read_csv_def player_filter_def truthy_def
        isin_match_ids_def column_def select_rows_def cell_of_def col_sum_def is_text_def
        exact_range_def num_of_def sort_values_desc_def ex_players_def)

lemma ex_wicket_takers:
  "top_wicket_takers ex_players ''p'' None None = Inr [(''A'', 1)]"
  by (simp add: top_wicket_takers_def player_loop_def path_exists_def listdir_def
        bowler_entry_def ex_paths load_csv_def read_csv_def player_filter_def truthy_def
        column_def cell_of_def notna_sum_def sort_values_desc_def ex_players_def)

lemma ex_fielders:
  "top_fielders ex_players ''p'' None None = Inr [(''A'', 3, 2, 1), (''B'', 1, 1, 0)]"
  "top_fielders ex_players ''p'' (Some ''India'') (Some [Num 1])
     = Inr [(''A'', 2, 1, 1), (''B'', 1, 1, 0)]"
  by (simp_all add: top_fielders_def player_loop_def path_exists_def listdir_def
        fielder_entry_def ex_paths load_csv_def read_csv_def player_filter_def truthy_def
        isin_match_ids_def column_def select_rows_def cell_of_def count_eq_def
        sort_values_desc_def ex_players_def)

text \<open>The two players, with team India and \<open>valid_match_ids = [1]\<close>, and without a team.\<close>

theorem leaderboards_sorted_top_ten_witness:
  "top_run_scorers ex_players ''p'' (Some ''India'') (Some [Num 1]) = Inr [(''B'', 7), (''A'', 4)]
   \<and> sorted_wrt (\<ge>) (map snd [(''B'', 7 :: int), (''A'', 4)])
   \<and> length [(''B'', 7 :: int), (''A'', 4)] \<le> 10
   \<and> top_wicket_takers ex_players ''p'' None None = Inr [(''A'', 1)]
   \<and> sorted_wrt (\<ge>) (map snd [(''A'', 1 :: nat)])
   \<and> top_fielders ex_players ''p'' None None = Inr [(''A'', 3, 2, 1), (''B'', 1, 1, 0)]
   \<and> sorted_wrt (\<ge>) (map (\<lambda>e. fst (snd e)) [(''A'', 3 :: nat, 2 :: nat, 1 :: nat), (''B'', 1, 1, 0)])"
  using leaderboards_sorted_top_ten [of ex_players "''p''" "Some ''India''" "Some [Num 1]"]
    leaderboards_sorted_top_ten [of ex_players "''p''" None None]
    ex_run_scorers(2) ex_wicket_takers ex_fielders(1)
  by simp

lemma fielder_entry_Some:
  assumes "fielder_entry fs player_dir team valid_match_ids p = Inr (Some e)"
  shows "\<exists>loaded df wicket_type.
           load_csv fs (path_join player_dir [p, ''fielder.csv'']) = Inr loaded
           \<and> player_filter team valid_match_ids loaded = Inr df
           \<and> column df ''wicket_type'' = Inr wicket_type
           \<and> e = (p, count_eq ''caught'' wicket_type + count_eq ''run out'' wicket_type,
                   count_eq ''caught'' wicket_type, count_eq ''run out'' wicket_type)"
proof (cases "path_exists fs (path_join player_dir [p, ''fielder.csv''])")
  case False
  with assms show ?thesis
    by (simp add: fielder_entry_def)
next
  case True
  show ?thesis
  proof (cases "load_csv fs (path_join player_dir [p, ''fielder.csv''])")
    case (Inl err)
    with True assms show ?thesis
      by (simp add: fielder_entry_def)
  next
    case l: (Inr loaded)
    show ?thesis
    proof (cases "player_filter team valid_match_ids loaded")
      case (Inl err)
      with True l assms show ?thesis
        by (simp add: fielder_entry_def)
    next
      case f: (Inr df)
      show ?thesis
      proof (cases "column df ''wicket_type''")
        case (Inl err)
        with True l f assms show ?thesis
          by (simp add: fielder_entry_def)
      next
        case c: (Inr wicket_type)
        with True l f assms
        have "e = (p, count_eq ''caught'' wicket_type + count_eq ''run out'' wicket_type,
                   count_eq ''caught'' wicket_type, count_eq ''run out'' wicket_type)"
          by (simp add: fielder_entry_def Let_def)
        with l f c show ?thesis
          by simp
      qed
    qed
  qed
qed

lemma column_rows:
  "column df c = Inr col \<Longrightarrow> col = map (\<lambda>r. cell_of r c) (rows df)"
  by (cases "c \<in> set (columns df)") (simp_all add: column_def)

lemma count_eq_rows:
  "count_eq label (map (\<lambda>r. cell_of r c) rs)
     = length (filter (\<lambda>r. cell_of r c = Str label) rs)"
  by (induction rs) (simp_all add: count_eq_def)

lemma player_filter_no_team:
  "\<not> truthy team \<Longrightarrow> player_filter team valid_match_ids df = Inr df"
  by (simp add: player_filter_def)

text \<open>
  C9: for every player on the top-fielders board the total is catches plus runouts, where
  catches and runouts are the numbers of rows of that player's fielder table, as it
  stands after the team filter of line 120, whose \<open>wicket_type\<close> is \<open>caught\<close> and
  \<open>run out\<close>; without a team the table is the one in the file.
\<close>

theorem top_fielders_total:
  assumes "top_fielders fs player_dir team valid_match_ids = Inr fld_df"
    and "(pname, total', catches, runouts) \<in> set fld_df"
  shows "total' = catches + runouts
     \<and> (\<exists>loaded df.
           load_csv fs (path_join player_dir [pname, ''fielder.csv'']) = Inr loaded
           \<and> player_filter team valid_match_ids loaded = Inr df
           \<and> (\<not> truthy team \<longrightarrow> df = loaded)
           \<and> catches = length (filter (\<lambda>r. cell_of r ''wicket_type'' = Str ''caught'') (rows df))
           \<and> runouts = length (filter (\<lambda>r. cell_of r ''wicket_type'' = Str ''run out'') (rows df)))"
proof -
  from assms(1) obtain fld_data
    where loop: "player_loop fs player_dir (fielder_entry fs player_dir team valid_match_ids)
                   = Inr fld_data"
      and board: "fld_df = take 10 (sort_values_desc (\<lambda>e. fst (snd e)) fld_data)"
    unfolding top_fielders_def bnd_eq_Inr by (elim exE conjE) simp
  have mem: "(pname, total', catches, runouts) \<in> set fld_data"
    using assms(2) unfolding board by (rule top_ten_subset)
  from player_loop_member [OF loop mem] obtain p
    where entry: "fielder_entry fs player_dir team valid_match_ids p
             = Inr (Some (pname, total', catches, runouts))" ..
  from fielder_entry_Some [OF entry] obtain loaded df wicket_type
    where l: "load_csv fs (path_join player_dir [p, ''fielder.csv'']) = Inr loaded"
      and f: "player_filter team valid_match_ids loaded = Inr df"
      and c: "column df ''wicket_type'' = Inr wicket_type"
      and v: "(pname, total', catches, runouts) =
                (p, count_eq ''caught'' wicket_type + count_eq ''run out'' wicket_type,
                 count_eq ''caught'' wicket_type, count_eq ''run out'' wicket_type)"
    by (elim exE conjE)
  from v have p: "p = pname" and t: "total' = catches + runouts"
    and k: "catches = count_eq ''caught'' wicket_type"
    and r: "runouts = count_eq ''run out'' wicket_type"
    by simp_all
  have w: "wicket_type = map (\<lambda>r. cell_of r ''wicket_type'') (rows df)"
    using c by (rule column_rows)
  have u: "\<not> truthy team \<longrightarrow> df = loaded"
  proof
    assume "\<not> truthy team"
    then have "player_filter team valid_match_ids loaded = Inr loaded"
      by (rule player_filter_no_team)
    with f show "df = loaded" by simp
  qed
  have k': "catches = length (filter (\<lambda>r. cell_of r ''wicket_type'' = Str ''caught'') (rows df))"
    unfolding k w by (rule count_eq_rows)
  have r': "runouts = length (filter (\<lambda>r. cell_of r ''wicket_type'' = Str ''run out'') (rows df))"
    unfolding r w by (rule count_eq_rows)
  have "\<exists>loaded df.
           load_csv fs (path_join player_dir [pname, ''fielder.csv'']) = Inr loaded
           \<and> player_filter team valid_match_ids loaded = Inr df
           \<and> (\<not> truthy team \<longrightarrow> df = loaded)
           \<and> catches = length (filter (\<lambda>r. cell_of r ''wicket_type'' = Str ''caught'') (rows df))
           \<and> runouts = length (filter (\<lambda>r. cell_of r ''wicket_type'' = Str ''run out'') (rows df))"
    using l [unfolded p] f u k' r' by (intro exI [of _ loaded] exI [of _ df] conjI)
  with t show ?thesis
    by (rule conjI)
qed


text \<open>Player A under team India: one catch and one run out in match 1, total 2.\<close>

theorem top_fielders_total_witness:
  "top_fielders ex_players ''p'' (Some ''India'') (Some [Num 1])
     = Inr [(''A'', 2, 1, 1), (''B'', 1, 1, 0)]
   \<and> (''A'', 2, 1, 1) \<in> set [(''A'', 2 :: nat, 1 :: nat, 1 :: nat), (''B'', 1, 1, 0)]
   \<and> (2 :: nat) = 1 + 1
   \<and> (\<exists>loaded df.
           load_csv ex_players (path_join ''p'' [''A'', ''fielder.csv'']) = Inr loaded
           \<and> player_filter (Some ''India'') (Some [Num 1]) loaded = Inr df
           \<and> (1 :: nat) = length (filter (\<lambda>r. cell_of r ''wicket_type'' = Str ''caught'') (rows df))
           \<and> (1 :: nat) = length (filter (\<lambda>r. cell_of r ''wicket_type'' = Str ''run out'') (rows df)))"
proof -
  have m: "(''A'', 2, 1, 1) \<in> set [(''A'', 2 :: nat, 1 :: nat, 1 :: nat), (''B'', 1, 1, 0)]"
    by simp
  show ?thesis
    using ex_fielders(2) m top_fielders_total [OF ex_fielders(2) m]
    by blast
qed


subsection \<open>Win margins\<close>

lemma select_columns_present:
  assumes "set cs \<subseteq> set (columns df)"
  shows "select_columns df cs =
           Inr \<lparr>columns = cs, rows = map (\<lambda>r. map (\<lambda>c. (c, cell_of r c)) cs) (rows df)\<rparr>"
proof -
  have "filter (\<lambda>c. c \<notin> set (columns df)) cs = []"
    using assms by (auto simp: filter_empty_conv)
  then show ?thesis
    by (simp add: select_columns_def)
qed

text \<open>
  With the four columns in the matches table, \<open>win_margins\<close> is a frame over exactly
  these columns with at most 20 rows.
\<close>

lemma win_margins_all_columns:
  assumes "set margin_columns \<subseteq> set (columns matches_df)"
  shows "\<exists>preview. win_margins matches_df = Inr preview
           \<and> columns preview = margin_columns \<and> length (rows preview) \<le> 20"
  using assms
  by (simp add: win_margins_def select_columns_present head_def dropna_all_def select_rows_def)

text \<open>
  C6 at a matches table that has \<open>outcome.winner\<close>, \<open>outcome.by.runs\<close> and
  \<open>outcome.result\<close> but no \<open>outcome.by.wickets\<close>: the guard of line 161 lets the
  section start, and line 163 raises a KeyError for the missing column; no preview is
  produced.
\<close>

theorem win_margins_one_margin_column:
  "\<not> df_empty ex_won_by_runs
   \<and> ''outcome.winner'' \<in> set (columns ex_won_by_runs)
   \<and> ''outcome.by.runs'' \<in> set (columns ex_won_by_runs)
   \<and> win_margins ex_won_by_runs = Inl (KeyError [''outcome.by.wickets''])
   \<and> winner_sections ex_won_by_runs =
       [Inr [Subheader ''Match Winners''],
        Inr [MatchWinners {#Str ''India''#}],
        Inr [Subheader ''Win Margins''],
        Inl (KeyError [''outcome.by.wickets''])]
   \<and> run_steps (winner_sections ex_won_by_runs) =
       ([Subheader ''Match Winners'', MatchWinners {#Str ''India''#}, Subheader ''Win Margins''],
        Some (KeyError [''outcome.by.wickets'']))"
proof -
  have w: "win_margins ex_won_by_runs = Inl (KeyError [''outcome.by.wickets''])"
    by (simp add: win_margins_def select_columns_def margin_columns_def ex_won_by_runs_def)
  have c: "column ex_won_by_runs ''outcome.winner'' = Inr [Str ''India'']"
    by (simp add: column_def ex_won_by_runs_def cell_of_def)
  have g: "\<not> df_empty ex_won_by_runs" "''outcome.winner'' \<in> set (columns ex_won_by_runs)"
    "''outcome.by.runs'' \<in> set (columns ex_won_by_runs)"
    by (simp_all add: df_empty_def ex_won_by_runs_def)
  have s: "winner_sections ex_won_by_runs =
       [Inr [Subheader ''Match Winners''],
        Inr [MatchWinners {#Str ''India''#}],
        Inr [Subheader ''Win Margins''],
        Inl (KeyError [''outcome.by.wickets''])]"
    using g by (simp add: winner_sections_def w c shown_as_def value_counts_def)
  show ?thesis
    using g w s by simp
qed

subsection \<open>The Player of the Match section\<close>


























end
